theory Spec2Isabelle
  imports Complex_Main
begin

section \<open>Advertisement service: data model, credentials, data access, HTTP layer\<close>

text \<open>
  A shallow embedding of the advertisement service (models.py, schemas.py, auth.py,
  crud.py, main.py).

  Conventions of the embedding.
  \<^item> A Python \<open>str\<close> is a \<open>string\<close>, the list of its characters. For a password (and
    for the hash, which is ASCII) the list is read as the UTF-8 encoding of the text, so
    that \<open>encode('utf-8')\<close> and \<open>decode('utf-8')\<close> keep the list and \<open>len\<close> of the
    encoded bytes is \<open>length\<close>. A header value reaches the handler decoded one character
    per byte, so its characters are the 256 values of \<open>char\<close>.
  \<^item> Times are whole seconds since the epoch (\<open>int\<close>); \<open>datetime.utcnow()\<close> and the
    storage clock are arguments.
  \<^item> A price is a \<open>real\<close>: only the order of finite floating-point values is used.
  \<^item> A table is the list of its rows in storage order; \<open>.first()\<close> is the first
    matching row, \<open>.all()\<close> all matching rows.
  \<^item> The libraries the service calls (the password hash, the token codec) are arguments
    of the functions that call them; what a proof needs from a library is a named,
    explicit assumption.
  \<^item> Diagnostic \<open>print\<close> output is left out.
\<close>

subsection \<open>models.py\<close>

datatype UserRole = USER | ADMIN

record user =
  uid :: int
  username :: string
  email :: string
  hashed_password :: string
  role :: UserRole
  user_created_at :: int

record advertisement =
  ad_id :: int
  title :: string
  description :: string
  price :: real
  ad_created_at :: int
  owner_id :: int

record database =
  users :: "user list"
  advertisements :: "advertisement list"

subsection \<open>crud.py: search\<close>

text \<open>
  Modelled from the spec: the storage engine is configured in database.py, which is not
  among the sources; sections 4.5 and 6 of the specification have a file-based
  relational store, that is SQLite. Its \<open>LIKE\<close> takes the 26 ASCII letters without
  regard to case and compares every other character exactly.
\<close>

definition ascii_fold :: "char \<Rightarrow> char" where
  "ascii_fold c =
     (let n = (of_char c :: nat) in if 65 \<le> n \<and> n \<le> 90 then char_of (n + 32) else c)"

definition like_char_eq :: "char \<Rightarrow> char \<Rightarrow> bool" where
  "like_char_eq p c \<longleftrightarrow> ascii_fold p = ascii_fold c"

text \<open>
  \<open>Advertisement.title.contains(title)\<close> is the ORM's \<open>contains\<close> operator. It renders
  the SQL condition \<open>title LIKE '%' || :title || '%'\<close>; the operand is not escaped
  (\<open>autoescape\<close> keeps its default), so a \<open>%\<close> in the operand stands for any run of
  characters and a \<open>_\<close> for any one character. \<open>like_match p s\<close> is the SQL predicate
  \<open>s LIKE p\<close> with no escape character.
\<close>

fun like_match :: "string \<Rightarrow> string \<Rightarrow> bool" where
  "like_match [] s = (s = [])"
| "like_match (p # ps) s =
     (if p = CHR ''%'' then
        (like_match ps s \<or> (case s of [] \<Rightarrow> False | c # s' \<Rightarrow> like_match (p # ps) s'))
      else (case s of [] \<Rightarrow> False
            | c # s' \<Rightarrow> (p = CHR ''_'' \<or> like_char_eq p c) \<and> like_match ps s'))"

definition contains :: "string \<Rightarrow> string \<Rightarrow> bool" where
  "contains col other = like_match (''%'' @ other @ ''%'') col"

text \<open>
  Python's truth value of an optional string: \<open>if title:\<close> holds when the argument is
  present and not the empty string.
\<close>

fun truthy :: "string option \<Rightarrow> bool" where
  "truthy None = False"
| "truthy (Some s) = (s \<noteq> [])"

text \<open>
  \<open>search_advertisements\<close>: the query starts from all rows; each \<open>if\<close> adds one
  \<open>filter\<close>; \<open>query.all()\<close> returns the rows that pass, in storage order.
\<close>

definition search_advertisements ::
  "database \<Rightarrow> string option \<Rightarrow> string option \<Rightarrow> real option \<Rightarrow> real option
     \<Rightarrow> advertisement list" where
  "search_advertisements db title_f description_f min_price max_price =
     (let query = advertisements db;
          query = (if truthy title_f
                   then filter (\<lambda>a. contains (title a) (the title_f)) query else query);
          query = (if truthy description_f
                   then filter (\<lambda>a. contains (description a) (the description_f)) query
                   else query);
          query = (if min_price \<noteq> None
                   then filter (\<lambda>a. price a \<ge> the min_price) query else query);
          query = (if max_price \<noteq> None
                   then filter (\<lambda>a. price a \<le> the max_price) query else query)
      in query)"

text \<open>
  The reading of the search in the specification's words, for comparison: a supplied
  text filter is a case-sensitive substring test, a supplied bound is inclusive, and a
  filter that is not supplied imposes nothing.
\<close>

fun is_substring :: "string \<Rightarrow> string \<Rightarrow> bool" where
  "is_substring s [] = (s = [])"
| "is_substring s (c # x) = (take (length s) (c # x) = s \<or> is_substring s x)"

definition supplied :: "('a \<Rightarrow> bool) \<Rightarrow> 'a option \<Rightarrow> bool" where
  "supplied P v = (case v of None \<Rightarrow> True | Some x \<Rightarrow> P x)"

definition search_spec ::
  "database \<Rightarrow> string option \<Rightarrow> string option \<Rightarrow> real option \<Rightarrow> real option
     \<Rightarrow> advertisement list" where
  "search_spec db title_f description_f min_price max_price =
     filter (\<lambda>a. supplied (\<lambda>s. is_substring s (title a)) title_f
               \<and> supplied (\<lambda>s. is_substring s (description a)) description_f
               \<and> supplied (\<lambda>m. m \<le> price a) min_price
               \<and> supplied (\<lambda>m. price a \<le> m) max_price)
            (advertisements db)"

subsection \<open>schemas.py\<close>

text \<open>
  A request body arrives validated. In an update body every field is optional, and
  the update functions ask which fields were set (\<open>model_dump(exclude_unset=True)\<close>):
  \<open>None\<close> is a field the body does not mention, \<open>Some None\<close> a field the body sets to
  \<open>null\<close> (the field types are \<open>Optional[...]\<close>, so validation lets \<open>null\<close> through),
  \<open>Some (Some v)\<close> a field set to \<open>v\<close>.
\<close>

record UserCreate =
  uc_username :: string
  uc_email :: string
  uc_password :: string
  uc_role :: UserRole

record UserUpdate =
  uu_username :: "string option option"
  uu_email :: "string option option"
  uu_password :: "string option option"

record AdvertisementUpdate =
  au_title :: "string option option"
  au_description :: "string option option"
  au_price :: "real option option"



text \<open>
  Values of a JSON object (claim values of a token, fields of a response body): \<open>null\<close>,
  a string or an integer.
\<close>

datatype jval = JNull | JStr string | JInt int

fun role_value :: "UserRole \<Rightarrow> string" where
  "role_value USER = ''user''"
| "role_value ADMIN = ''admin''"

text \<open>
  \<open>UserResponse\<close> (with \<open>from_attributes\<close>) reads its own fields off the stored row:
  those of \<open>UserBase\<close>, then \<open>id\<close>, \<open>role\<close>, \<open>created_at\<close>. The response body is the
  object with these fields.
\<close>

definition UserResponse :: "user \<Rightarrow> (string \<times> jval) list" where
  "UserResponse u =
     [(''username'', JStr (username u)),
      (''email'', JStr (email u)),
      (''id'', JInt (uid u)),
      (''role'', JStr (role_value (role u))),
      (''created_at'', JInt (user_created_at u))]"

subsection \<open>auth.py\<close>

text \<open>
  Exceptions that the modelled code can meet. \<open>ExpiredSignatureError\<close> and
  \<open>JWTClaimsError\<close> are subclasses of \<open>JWTError\<close>, so \<open>except JWTError\<close> catches the
  three of them and nothing else.
\<close>

datatype py_exn =
  JWTError | ExpiredSignatureError | JWTClaimsError
  | TypeError | IntegrityError | AttributeError | OverflowError

fun isinstance_JWTError :: "py_exn \<Rightarrow> bool" where
  "isinstance_JWTError JWTError = True"
| "isinstance_JWTError ExpiredSignatureError = True"
| "isinstance_JWTError JWTClaimsError = True"
| "isinstance_JWTError _ = False"

type_synonym claims = "string \<rightharpoonup> jval"

text \<open>
  The token library: \<open>jwt.encode(claims, key, algorithm)\<close> and
  \<open>jwt.decode(token, key, algorithms)\<close>, the latter reading the clock (last argument)
  and either returning the claims or raising. A \<open>datetime\<close> claim is carried as its
  timestamp. The password library: \<open>bcrypt.hashpw(bytes, salt)\<close> and
  \<open>bcrypt.checkpw(bytes, hash)\<close>; the result of \<open>bcrypt.gensalt()\<close> is the argument
  \<open>salt\<close>.
\<close>

type_synonym jwt_encode = "claims \<Rightarrow> string \<Rightarrow> string \<Rightarrow> string"
type_synonym jwt_decode = "string \<Rightarrow> string \<Rightarrow> string list \<Rightarrow> int \<Rightarrow> py_exn + claims"
type_synonym hashpw = "string \<Rightarrow> string \<Rightarrow> string"
type_synonym checkpw = "string \<Rightarrow> string \<Rightarrow> bool"

definition ALGORITHM :: string where
  "ALGORITHM = ''HS256''"



text \<open>
  \<open>SECRET_KEY\<close> is read once from the environment when the module is loaded; its
  value is the argument \<open>key\<close> of the two token functions.
\<close>

definition encode_utf8 :: "string \<Rightarrow> string" where
  "encode_utf8 s = s"

definition decode_utf8 :: "string \<Rightarrow> string" where
  "decode_utf8 b = b"

definition safe_bcrypt_hash :: "hashpw \<Rightarrow> string \<Rightarrow> string \<Rightarrow> string" where
  "safe_bcrypt_hash hashpw salt password =
     (let password_bytes = encode_utf8 password;
          password_bytes = (if length password_bytes > 72
                            then take 72 password_bytes else password_bytes);
          hashed = hashpw password_bytes salt
      in decode_utf8 hashed)"

definition safe_bcrypt_verify :: "checkpw \<Rightarrow> string \<Rightarrow> string \<Rightarrow> bool" where
  "safe_bcrypt_verify checkpw plain_password hashed_password' =
     (let password_bytes = encode_utf8 plain_password;
          password_bytes = (if length password_bytes > 72
                            then take 72 password_bytes else password_bytes)
      in checkpw password_bytes (encode_utf8 hashed_password'))"

definition verify_password :: "checkpw \<Rightarrow> string \<Rightarrow> string \<Rightarrow> bool" where
  "verify_password checkpw plain_password hashed_password' =
     safe_bcrypt_verify checkpw plain_password hashed_password'"

definition get_password_hash :: "hashpw \<Rightarrow> string \<Rightarrow> string \<Rightarrow> string" where
  "get_password_hash hashpw salt password = safe_bcrypt_hash hashpw salt password"



definition verify_token :: "jwt_decode \<Rightarrow> string \<Rightarrow> int \<Rightarrow> string \<Rightarrow> py_exn + claims option" where
  "verify_token dec key now token =
     (case dec token key [ALGORITHM] now of
        Inr payload \<Rightarrow> Inr (Some payload)
      | Inl e \<Rightarrow> if isinstance_JWTError e then Inr None else Inl e)"

text \<open>
  What the proofs assume of the libraries. The password library accepts what it hashed
  itself, for inputs of at most 72 bytes. The token library, for the claims \<open>c\<close>, key and
  algorithm at hand, decodes what it encoded, unless the \<open>exp\<close> claim is before the
  clock, which raises \<open>ExpiredSignatureError\<close>.
\<close>

definition bcrypt_correct :: "hashpw \<Rightarrow> checkpw \<Rightarrow> bool" where
  "bcrypt_correct hashpw checkpw \<longleftrightarrow>
     (\<forall>pw salt. length pw \<le> 72 \<longrightarrow> checkpw pw (hashpw pw salt))"

definition jose_roundtrip :: "jwt_encode \<Rightarrow> jwt_decode \<Rightarrow> string \<Rightarrow> string \<Rightarrow> claims \<Rightarrow> bool" where
  "jose_roundtrip enc dec k a c \<longleftrightarrow>
     (\<forall>t. dec (enc c k a) k [a] t =
        (case c ''exp'' of
           Some (JInt e) \<Rightarrow> if e < t then Inl ExpiredSignatureError else Inr c
         | _ \<Rightarrow> Inr c))"

subsection \<open>The token library\<close>

text \<open>
  What \<open>jwt.decode(token, key, algorithms)\<close> of python-jose does with a token, as far as
  the service depends on it. It first checks the signature and parses the payload; this
  layer is an argument (\<open>None\<close> when the token is malformed or the signature does not
  match, which the library reports as \<open>JWTError\<close>). It then validates the registered
  claims of the payload, with its default options and with no audience, issuer, subject
  or access token given, in the order \<open>iat\<close>, \<open>nbf\<close>, \<open>exp\<close>, \<open>aud\<close>, \<open>sub\<close>, \<open>jti\<close>,
  \<open>at_hash\<close>. The time claims go through \<open>int()\<close>: the library turns its \<open>ValueError\<close>
  into \<open>JWTClaimsError\<close> and does not catch the \<open>TypeError\<close> that \<open>int(None)\<close> raises.
  Python's \<open>int\<close> on a string is an argument (\<open>None\<close> for \<open>ValueError\<close>).
  \<open>jwt.encode(claims, key, algorithm)\<close> signs the claims as they are: it is the signing
  layer itself, of type \<open>jwt_encode\<close>.
\<close>

type_synonym jws_verify = "string \<Rightarrow> string \<Rightarrow> string list \<Rightarrow> claims option"
type_synonym int_of_str = "string \<Rightarrow> int option"

fun int_claim :: "int_of_str \<Rightarrow> jval \<Rightarrow> py_exn + int" where
  "int_claim py_int (JInt n) = Inr n"
| "int_claim py_int JNull = Inl TypeError"
| "int_claim py_int (JStr s) =
     (case py_int s of None \<Rightarrow> Inl JWTClaimsError | Some n \<Rightarrow> Inr n)"

definition validate_iat :: "int_of_str \<Rightarrow> claims \<Rightarrow> py_exn option" where
  "validate_iat py_int c =
     (case c ''iat'' of
        None \<Rightarrow> None
      | Some v \<Rightarrow> (case int_claim py_int v of Inl e \<Rightarrow> Some e | Inr n \<Rightarrow> None))"

definition validate_nbf :: "int_of_str \<Rightarrow> claims \<Rightarrow> int \<Rightarrow> py_exn option" where
  "validate_nbf py_int c now =
     (case c ''nbf'' of
        None \<Rightarrow> None
      | Some v \<Rightarrow>
          (case int_claim py_int v of
             Inl e \<Rightarrow> Some e
           | Inr nbf \<Rightarrow> if nbf > now then Some JWTClaimsError else None))"

definition validate_exp :: "int_of_str \<Rightarrow> claims \<Rightarrow> int \<Rightarrow> py_exn option" where
  "validate_exp py_int c now =
     (case c ''exp'' of
        None \<Rightarrow> None
      | Some v \<Rightarrow>
          (case int_claim py_int v of
             Inl e \<Rightarrow> Some e
           | Inr expiry \<Rightarrow> if expiry < now then Some ExpiredSignatureError else None))"

text \<open>
  With no audience given, any \<open>aud\<close> claim is refused; with no access token given, any
  \<open>at_hash\<close> claim is refused; \<open>sub\<close> and \<open>jti\<close> must be strings.
\<close>

definition validate_aud :: "claims \<Rightarrow> py_exn option" where
  "validate_aud c = (case c ''aud'' of None \<Rightarrow> None | Some v \<Rightarrow> Some JWTClaimsError)"

definition validate_sub :: "claims \<Rightarrow> py_exn option" where
  "validate_sub c =
     (case c ''sub'' of
        None \<Rightarrow> None
      | Some (JStr s) \<Rightarrow> None
      | Some v \<Rightarrow> Some JWTClaimsError)"

definition validate_jti :: "claims \<Rightarrow> py_exn option" where
  "validate_jti c =
     (case c ''jti'' of
        None \<Rightarrow> None
      | Some (JStr s) \<Rightarrow> None
      | Some v \<Rightarrow> Some JWTClaimsError)"

definition validate_at_hash :: "claims \<Rightarrow> py_exn option" where
  "validate_at_hash c =
     (case c ''at_hash'' of None \<Rightarrow> None | Some v \<Rightarrow> Some JWTClaimsError)"

fun first_failure :: "py_exn option list \<Rightarrow> py_exn option" where
  "first_failure [] = None"
| "first_failure (None # checks) = first_failure checks"
| "first_failure (Some e # checks) = Some e"

definition validate_claims :: "int_of_str \<Rightarrow> claims \<Rightarrow> int \<Rightarrow> py_exn option" where
  "validate_claims py_int c now =
     first_failure
       [validate_iat py_int c, validate_nbf py_int c now, validate_exp py_int c now,
        validate_aud c, validate_sub c, validate_jti c, validate_at_hash c]"

definition jose_decode :: "jws_verify \<Rightarrow> int_of_str \<Rightarrow> jwt_decode" where
  "jose_decode verify py_int token key algorithms now =
     (case verify token key algorithms of
        None \<Rightarrow> Inl JWTError
      | Some c \<Rightarrow>
          (case validate_claims py_int c now of
             Some e \<Rightarrow> Inl e
           | None \<Rightarrow> Inr c))"

text \<open>
  What is assumed of the signing layer, for the claims \<open>c\<close>, key and algorithm at hand:
  the signature it made verifies, and the payload parses back to the claims.
\<close>

definition jws_roundtrip :: "jwt_encode \<Rightarrow> jws_verify \<Rightarrow> string \<Rightarrow> string \<Rightarrow> claims \<Rightarrow> bool" where
  "jws_roundtrip sign verify k a c \<longleftrightarrow> verify (sign c k a) k [a] = Some c"

subsection \<open>crud.py: users and advertisements\<close>

text \<open>
  The storage engine gives a new row the next free key: one more than the largest key
  of the table (1 for an empty table).
\<close>

definition next_id :: "int list \<Rightarrow> int" where
  "next_id ids = fold max ids 0 + 1"

text \<open>
  Modelled from the spec: the storage engine is configured in database.py, which is not
  among the sources; with the file-based store of the specification (SQLite) a query
  parameter must fit a signed 64-bit integer, and binding a larger one raises
  \<open>OverflowError\<close>.
\<close>

definition sqlite_integer :: "int \<Rightarrow> bool" where
  "sqlite_integer i \<longleftrightarrow> - (2 ^ 63) \<le> i \<and> i < 2 ^ 63"

definition get_user_by_id :: "database \<Rightarrow> int \<Rightarrow> py_exn + user option" where
  "get_user_by_id db user_id =
     (if sqlite_integer user_id then Inr (find (\<lambda>u. uid u = user_id) (users db))
      else Inl OverflowError)"

definition get_user_by_username :: "database \<Rightarrow> string \<Rightarrow> user option" where
  "get_user_by_username db name = find (\<lambda>u. username u = name) (users db)"

definition get_advertisement :: "database \<Rightarrow> int \<Rightarrow> py_exn + advertisement option" where
  "get_advertisement db advertisement_id =
     (if sqlite_integer advertisement_id
      then Inr (find (\<lambda>a. ad_id a = advertisement_id) (advertisements db))
      else Inl OverflowError)"

text \<open>
  Writing a row back: the row that the query found (the first match) is replaced, or
  removed. A failed commit leaves the tables as they were.
\<close>

fun replace_first :: "('a \<Rightarrow> bool) \<Rightarrow> 'a \<Rightarrow> 'a list \<Rightarrow> 'a list" where
  "replace_first P y [] = []"
| "replace_first P y (x # xs) = (if P x then y # xs else x # replace_first P y xs)"

fun remove_first :: "('a \<Rightarrow> bool) \<Rightarrow> 'a list \<Rightarrow> 'a list" where
  "remove_first P [] = []"
| "remove_first P (x # xs) = (if P x then xs else x # remove_first P xs)"

text \<open>
  \<open>create_user\<close>: the columns \<open>username\<close> and \<open>email\<close> are declared \<open>unique\<close>, so the
  commit raises \<open>IntegrityError\<close> when another row already holds the value.
\<close>

definition crud_create_user ::
  "hashpw \<Rightarrow> string \<Rightarrow> int \<Rightarrow> database \<Rightarrow> UserCreate \<Rightarrow> database \<times> (py_exn + user)" where
  "crud_create_user hashpw salt now db user_in =
     (let hashed = get_password_hash hashpw salt (uc_password user_in);
          db_user = \<lparr>uid = next_id (map uid (users db)),
                     username = uc_username user_in,
                     email = uc_email user_in,
                     hashed_password = hashed,
                     role = uc_role user_in,
                     user_created_at = now\<rparr>
      in if \<exists>u\<in>set (users db). username u = username db_user \<or> email u = email db_user
         then (db, Inl IntegrityError)
         else (db\<lparr>users := users db @ [db_user]\<rparr>, Inr db_user))"

text \<open>
  The value of a column after the \<open>setattr\<close> loop: the old value when the body does
  not mention the field, else what the body sets, \<open>None\<close> being SQL \<open>NULL\<close>.
\<close>

definition assigned :: "'a option option \<Rightarrow> 'a \<Rightarrow> 'a option" where
  "assigned field old = (case field of None \<Rightarrow> Some old | Some v \<Rightarrow> v)"

text \<open>
  \<open>update_user\<close>: a \<open>password\<close> entry is replaced by \<open>hashed_password\<close> before the loop
  (hashing \<open>None\<close> raises \<open>AttributeError\<close>: it has no \<open>encode\<close>). The commit checks the
  declared constraints on the columns it writes: every column of \<open>users\<close> is
  \<open>nullable=False\<close>, and \<open>username\<close> and \<open>email\<close> are \<open>unique\<close> (no other row may hold
  the new value).
\<close>

definition crud_update_user ::
  "hashpw \<Rightarrow> string \<Rightarrow> database \<Rightarrow> int \<Rightarrow> UserUpdate \<Rightarrow> database \<times> (py_exn + user option)" where
  "crud_update_user hashpw salt db user_id user_update =
     (case get_user_by_id db user_id of
        Inl e \<Rightarrow> (db, Inl e)
      | Inr None \<Rightarrow> (db, Inr None)
      | Inr (Some db_user) \<Rightarrow>
          if uu_password user_update = Some None then (db, Inl AttributeError)
          else
            let new_hash = (case uu_password user_update of
                              Some (Some p) \<Rightarrow> Some (get_password_hash hashpw salt p)
                            | _ \<Rightarrow> Some (hashed_password db_user));
                new_username = assigned (uu_username user_update) (username db_user);
                new_email = assigned (uu_email user_update) (email db_user)
            in case (new_username, new_email, new_hash) of
                 (Some n, Some e, Some h) \<Rightarrow>
                   if \<exists>u\<in>set (users db). uid u \<noteq> uid db_user
                        \<and> (uu_username user_update \<noteq> None \<and> username u = n
                            \<or> uu_email user_update \<noteq> None \<and> email u = e)
                   then (db, Inl IntegrityError)
                   else
                     let db_user = db_user\<lparr>username := n, email := e, hashed_password := h\<rparr>
                     in (db\<lparr>users := replace_first (\<lambda>u. uid u = user_id) db_user (users db)\<rparr>,
                         Inr (Some db_user))
               | _ \<Rightarrow> (db, Inl IntegrityError))"


text \<open>
  \<open>update_advertisement\<close>: \<open>title\<close>, \<open>description\<close> and \<open>price\<close> are \<open>nullable=False\<close>.
\<close>

definition crud_update_advertisement ::
  "database \<Rightarrow> int \<Rightarrow> AdvertisementUpdate \<Rightarrow> database \<times> (py_exn + advertisement option)" where
  "crud_update_advertisement db advertisement_id advertisement_update =
     (case get_advertisement db advertisement_id of
        Inl e \<Rightarrow> (db, Inl e)
      | Inr None \<Rightarrow> (db, Inr None)
      | Inr (Some db_advertisement) \<Rightarrow>
          (case (assigned (au_title advertisement_update) (title db_advertisement),
                 assigned (au_description advertisement_update) (description db_advertisement),
                 assigned (au_price advertisement_update) (price db_advertisement)) of
             (Some t, Some d, Some p) \<Rightarrow>
               let db_advertisement = db_advertisement\<lparr>title := t, description := d, price := p\<rparr>
               in (db\<lparr>advertisements :=
                        replace_first (\<lambda>a. ad_id a = advertisement_id) db_advertisement
                          (advertisements db)\<rparr>,
                   Inr (Some db_advertisement))
           | _ \<Rightarrow> (db, Inl IntegrityError)))"

definition crud_delete_advertisement :: "database \<Rightarrow> int \<Rightarrow> database \<times> (py_exn + bool)" where
  "crud_delete_advertisement db advertisement_id =
     (case get_advertisement db advertisement_id of
        Inl e \<Rightarrow> (db, Inl e)
      | Inr None \<Rightarrow> (db, Inr False)
      | Inr (Some db_advertisement) \<Rightarrow>
          (db\<lparr>advertisements :=
                remove_first (\<lambda>a. ad_id a = advertisement_id) (advertisements db)\<rparr>,
           Inr True))"

subsection \<open>main.py\<close>

text \<open>
  A handler either returns its response or fails: with an \<open>HTTPException\<close> (status
  code and detail) that it raises itself, or with an exception that nothing catches,
  which the framework answers with status 500. A handler that writes returns the
  tables as they are after the request.
\<close>

datatype failure = HTTPException nat string | Unhandled py_exn

text \<open>
  \<open>str.split()\<close> with no argument: the words between runs of whitespace, none of them
  empty. \<open>isspace\<close> lists the whitespace characters among the first 256 code points;
  \<open>str_lower\<close> is \<open>str.lower()\<close> on the same range.
\<close>

definition isspace :: "char \<Rightarrow> bool" where
  "isspace c \<longleftrightarrow>
     (let n = (of_char c :: nat)
      in (9 \<le> n \<and> n \<le> 13) \<or> (28 \<le> n \<and> n \<le> 32) \<or> n = 133 \<or> n = 160)"

fun split_from :: "string \<Rightarrow> string \<Rightarrow> string list" where
  "split_from word [] = (if word = [] then [] else [word])"
| "split_from word (c # cs) =
     (if isspace c then (if word = [] then split_from [] cs else word # split_from [] cs)
      else split_from (word @ [c]) cs)"

definition str_split :: "string \<Rightarrow> string list" where
  "str_split s = split_from [] s"

text \<open>
  For comparison, what it is for a header to consist of exactly the two tokens \<open>t1\<close> and
  \<open>t2\<close>: two words without whitespace, at least one whitespace character between them,
  and nothing but whitespace around them.
\<close>

definition two_tokens :: "string \<Rightarrow> string \<Rightarrow> string \<Rightarrow> bool" where
  "two_tokens a t1 t2 \<longleftrightarrow>
     (\<exists>w0 w1 w2. a = w0 @ t1 @ w1 @ t2 @ w2
        \<and> (\<forall>c\<in>set (w0 @ w1 @ w2). isspace c) \<and> w1 \<noteq> []
        \<and> t1 \<noteq> [] \<and> t2 \<noteq> [] \<and> (\<forall>c\<in>set (t1 @ t2). \<not> isspace c))"

definition lower_char :: "char \<Rightarrow> char" where
  "lower_char c =
     (let n = (of_char c :: nat)
      in if (65 \<le> n \<and> n \<le> 90) \<or> (192 \<le> n \<and> n \<le> 222 \<and> n \<noteq> 215)
         then char_of (n + 32) else c)"

definition str_lower :: "string \<Rightarrow> string" where
  "str_lower s = map lower_char s"

text \<open>
  \<open>get_current_user\<close>. The \<open>try\<close> around the split has nothing to catch on a string.
  \<open>parts[0]\<close> is read only when there are two parts (\<open>or\<close> stops at its first true
  operand). A \<open>sub\<close> claim that is \<open>null\<close> is the \<open>None\<close> of \<open>payload.get("sub")\<close>; one
  that is a number names no stored user.
\<close>

definition get_current_user ::
  "jwt_decode \<Rightarrow> string \<Rightarrow> int \<Rightarrow> database \<Rightarrow> string option \<Rightarrow> py_exn + user option" where
  "get_current_user dec key now db authorization =
     (case authorization of
        None \<Rightarrow> Inr None
      | Some a \<Rightarrow>
          let parts = str_split a
          in if length parts \<noteq> 2 \<or> str_lower (parts ! 0) \<noteq> ''bearer'' then Inr None
             else
               let token = parts ! 1
               in case verify_token dec key now token of
                    Inl e \<Rightarrow> Inl e
                  | Inr None \<Rightarrow> Inr None
                  | Inr (Some payload) \<Rightarrow>
                      (case payload ''sub'' of
                         None \<Rightarrow> Inr None
                       | Some JNull \<Rightarrow> Inr None
                       | Some (JInt n) \<Rightarrow> Inr None
                       | Some (JStr name) \<Rightarrow>
                           (case get_user_by_username db name of
                              None \<Rightarrow> Inr None
                            | Some u \<Rightarrow> Inr (Some u))))"

text \<open>\<open>POST /user\<close>.\<close>

definition create_user ::
  "hashpw \<Rightarrow> string \<Rightarrow> int \<Rightarrow> database \<Rightarrow> UserCreate
     \<Rightarrow> database \<times> (failure + (string \<times> jval) list)" where
  "create_user hashpw salt now db user_in =
     (if get_user_by_username db (uc_username user_in) \<noteq> None
      then (db, Inl (HTTPException 400 ''Username already registered''))
      else if find (\<lambda>u. email u = uc_email user_in) (users db) \<noteq> None
      then (db, Inl (HTTPException 400 ''Email already registered''))
      else case crud_create_user hashpw salt now db user_in of
             (db', Inl e) \<Rightarrow> (db', Inl (Unhandled e))
           | (db', Inr u) \<Rightarrow> (db', Inr (UserResponse u)))"

text \<open>
  \<open>PATCH /user/{id}\<close>; \<open>current_user\<close> is the caller that the required-identity gate
  let through.
\<close>

definition update_user ::
  "hashpw \<Rightarrow> string \<Rightarrow> database \<Rightarrow> int \<Rightarrow> UserUpdate \<Rightarrow> user
     \<Rightarrow> database \<times> (failure + (string \<times> jval) list)" where
  "update_user hashpw salt db user_id user_update current_user =
     (if uid current_user \<noteq> user_id \<and> role current_user \<noteq> ADMIN
      then (db, Inl (HTTPException 403 ''Not enough permissions to update this user''))
      else case crud_update_user hashpw salt db user_id user_update of
             (db', Inl e) \<Rightarrow> (db', Inl (Unhandled e))
           | (db', Inr None) \<Rightarrow> (db', Inl (HTTPException 404 ''User not found''))
           | (db', Inr (Some u)) \<Rightarrow> (db', Inr (UserResponse u)))"

text \<open>
  \<open>PATCH /advertisement/{id}\<close> and \<open>DELETE /advertisement/{id}\<close>; \<open>current_user\<close> is the
  caller that the required-identity gate let through. \<open>AdvertisementResponse\<close> has the
  fields of the stored row, so the row stands for the response body.
\<close>

definition update_advertisement ::
  "database \<Rightarrow> int \<Rightarrow> AdvertisementUpdate \<Rightarrow> user
     \<Rightarrow> database \<times> (failure + advertisement option)" where
  "update_advertisement db advertisement_id advertisement_update current_user =
     (case get_advertisement db advertisement_id of
        Inl e \<Rightarrow> (db, Inl (Unhandled e))
      | Inr None \<Rightarrow> (db, Inl (HTTPException 404 ''Advertisement not found''))
      | Inr (Some db_advertisement) \<Rightarrow>
          if owner_id db_advertisement \<noteq> uid current_user \<and> role current_user \<noteq> ADMIN
          then (db, Inl (HTTPException 403
                           ''Not enough permissions to update this advertisement''))
          else case crud_update_advertisement db advertisement_id advertisement_update of
                 (db', Inl e) \<Rightarrow> (db', Inl (Unhandled e))
               | (db', Inr r) \<Rightarrow> (db', Inr r))"

definition delete_advertisement ::
  "database \<Rightarrow> int \<Rightarrow> user \<Rightarrow> database \<times> (failure + string)" where
  "delete_advertisement db advertisement_id current_user =
     (case get_advertisement db advertisement_id of
        Inl e \<Rightarrow> (db, Inl (Unhandled e))
      | Inr None \<Rightarrow> (db, Inl (HTTPException 404 ''Advertisement not found''))
      | Inr (Some db_advertisement) \<Rightarrow>
          if owner_id db_advertisement \<noteq> uid current_user \<and> role current_user \<noteq> ADMIN
          then (db, Inl (HTTPException 403
                           ''Not enough permissions to delete this advertisement''))
          else case crud_delete_advertisement db advertisement_id of
                 (db', Inl e) \<Rightarrow> (db', Inl (Unhandled e))
               | (db', Inr success) \<Rightarrow>
                   if \<not> success
                   then (db', Inl (HTTPException 404 ''Advertisement not found''))
                   else (db', Inr ''Advertisement deleted successfully''))"

text \<open>\<open>POST /login\<close>. The \<open>role\<close> claim is written as the role's string value.\<close>

definition login_claims :: "user \<Rightarrow> claims" where
  "login_claims u =
     [''sub'' \<mapsto> JStr (username u), ''user_id'' \<mapsto> JInt (uid u),
      ''role'' \<mapsto> JStr (role_value (role u))]"


subsection \<open>Concrete data for the instances\<close>

text \<open>
  Stand-ins for the two libraries, small enough to compute with: a hash that keeps the
  salt and the password apart, and a codec that knows one token (\<open>demo_decode\<close> as a
  whole decoder, \<open>demo_jws_verify\<close> as the signing layer under the library's claim
  validation; no instance below has a string for \<open>int()\<close> to convert). They serve only
  to instantiate the theorems below at concrete inputs.
\<close>

definition demo_hashpw :: hashpw where
  "demo_hashpw pw salt = salt @ ''$'' @ pw"

definition demo_checkpw :: checkpw where
  "demo_checkpw pw h = (length pw \<le> length h \<and> drop (length h - length pw) h = pw)"



definition demo_jws_verify :: "claims \<Rightarrow> jws_verify" where
  "demo_jws_verify c tok k algs = (if tok = ''demo.token'' then Some c else None)"

definition demo_int_of_str :: int_of_str where
  "demo_int_of_str s = None"

definition null_exp_claims :: claims where
  "null_exp_claims = [''sub'' \<mapsto> JStr ''alice'', ''exp'' \<mapsto> JNull]"


definition alice :: user where
  "alice = \<lparr>uid = 1, username = ''alice'', email = ''alice@example.org'',
            hashed_password = ''salt$wonderland'', role = USER, user_created_at = 100\<rparr>"

definition bob :: user where
  "bob = \<lparr>uid = 2, username = ''bob'', email = ''bob@example.org'',
          hashed_password = ''salt$builder'', role = ADMIN, user_created_at = 200\<rparr>"

definition carol :: user where
  "carol = \<lparr>uid = 3, username = ''carol'', email = ''carol@example.org'',
            hashed_password = ''salt$singer'', role = USER, user_created_at = 300\<rparr>"

definition bike :: advertisement where
  "bike = \<lparr>ad_id = 1, title = ''Red bike'', description = ''almost new'', price = 45,
           ad_created_at = 150, owner_id = 1\<rparr>"

definition sofa :: advertisement where
  "sofa = \<lparr>ad_id = 2, title = ''Sofa'', description = ''100% leather'', price = 120,
           ad_created_at = 250, owner_id = 3\<rparr>"

definition demo_db :: database where
  "demo_db = \<lparr>users = [alice, bob, carol], advertisements = [bike, sofa]\<rparr>"

section \<open>Properties\<close>

subsection \<open>Search\<close>

lemma like_percent_all: "like_match ''%'' s"
  by (induction s) simp_all

lemma like_percent_iff:
  "like_match (CHR ''%'' # ps) s \<longleftrightarrow> (\<exists>i\<le>length s. like_match ps (drop i s))"
proof (induction s)
  case Nil
  then show ?case by simp
next
  case (Cons c s)
  have "(\<exists>i\<le>length (c # s). like_match ps (drop i (c # s)))
        \<longleftrightarrow> like_match ps (c # s) \<or> (\<exists>i\<le>length s. like_match ps (drop i s))"
  proof
    assume "\<exists>i\<le>length (c # s). like_match ps (drop i (c # s))"
    then obtain i where i: "i \<le> length (c # s)" "like_match ps (drop i (c # s))" by blast
    show "like_match ps (c # s) \<or> (\<exists>i\<le>length s. like_match ps (drop i s))"
    proof (cases i)
      case 0
      with i show ?thesis by simp
    next
      case (Suc j)
      with i have "j \<le> length s" "like_match ps (drop j s)" by simp_all
      then show ?thesis by blast
    qed
  next
    assume "like_match ps (c # s) \<or> (\<exists>i\<le>length s. like_match ps (drop i s))"
    then show "\<exists>i\<le>length (c # s). like_match ps (drop i (c # s))"
    proof
      assume "like_match ps (c # s)"
      then have "like_match ps (drop 0 (c # s))" by simp
      then show ?thesis by blast
    next
      assume "\<exists>i\<le>length s. like_match ps (drop i s)"
      then obtain j where "j \<le> length s" "like_match ps (drop j s)" by blast
      then have "Suc j \<le> length (c # s)" "like_match ps (drop (Suc j) (c # s))" by simp_all
      then show ?thesis by blast
    qed
  qed
  with Cons show ?case by simp
qed

lemma contains_empty: "contains x []"
proof -
  have "like_match ''%'' (drop 0 x)" by (rule like_percent_all)
  then have "\<exists>i\<le>length x. like_match ''%'' (drop i x)" by blast
  then show ?thesis
    unfolding contains_def by (simp only: append_Cons append_Nil like_percent_iff)
qed

lemma search_advertisements_filter:
  "search_advertisements db t d lo hi =
     filter (\<lambda>a. supplied (\<lambda>s. contains (title a) s) t
               \<and> supplied (\<lambda>s. contains (description a) s) d
               \<and> supplied (\<lambda>m. m \<le> price a) lo
               \<and> supplied (\<lambda>m. price a \<le> m) hi)
            (advertisements db)"
proof -
  have t: "(if truthy t then filter (\<lambda>a. contains (title a) (the t)) xs else xs)
           = filter (\<lambda>a. supplied (\<lambda>s. contains (title a) s) t) xs" for xs
    by (cases t) (simp_all add: supplied_def contains_empty)
  have d: "(if truthy d then filter (\<lambda>a. contains (description a) (the d)) xs else xs)
           = filter (\<lambda>a. supplied (\<lambda>s. contains (description a) s) d) xs" for xs
    by (cases d) (simp_all add: supplied_def contains_empty)
  have lo: "(if lo \<noteq> None then filter (\<lambda>a. price a \<ge> the lo) xs else xs)
           = filter (\<lambda>a. supplied (\<lambda>m. m \<le> price a) lo) xs" for xs
    by (cases lo) (simp_all add: supplied_def)
  have hi: "(if hi \<noteq> None then filter (\<lambda>a. price a \<le> the hi) xs else xs)
           = filter (\<lambda>a. supplied (\<lambda>m. price a \<le> m) hi) xs" for xs
    by (cases hi) (simp_all add: supplied_def)
  show ?thesis
    unfolding search_advertisements_def Let_def t d lo hi
    by (simp add: conj_commute conj_left_commute cong: conj_cong)
qed

text \<open>
  Claim C10. With the empty string as the title filter, or as the description filter,
  the search returns the same list as with that filter not supplied, whatever the other
  filters are: the filters are guarded by the truth value of the argument, and the
  empty string is false.
\<close>

theorem search_empty_filter_ignored:
  "search_advertisements db (Some []) d lo hi = search_advertisements db None d lo hi
   \<and> search_advertisements db t (Some []) lo hi = search_advertisements db t None lo hi"
  by (simp add: search_advertisements_def)

text \<open>
  On the stored titles the pattern match also takes upper and lower case ASCII letters
  for the same, as the store's \<open>LIKE\<close> does.
\<close>

lemma search_folds_ascii_case:
  "search_advertisements demo_db (Some ''BIKE'') None None None = [bike]"
  by (simp add: search_advertisements_def contains_def like_char_eq_def ascii_fold_def
      char_of_eq_iff demo_db_def bike_def sofa_def)

text \<open>
  Claim C7 says that the search returns exactly the advertisements that satisfy every
  supplied filter, a text filter being a substring test. The operand of \<open>contains\<close> is
  not escaped, so a filter text that holds \<open>_\<close> or \<open>%\<close> is a pattern: with the title
  filter \<open>_\<close> the search returns both stored advertisements (each title has at least one
  character), where the search of the specification returns none, no stored title
  having an underscore in it.
\<close>

theorem search_wildcard_counterexample:
  "search_advertisements demo_db (Some ''_'') None None None = [bike, sofa]
   \<and> search_spec demo_db (Some ''_'') None None None = []"
  by (simp add: search_advertisements_def search_spec_def supplied_def contains_def
      like_char_eq_def demo_db_def bike_def sofa_def)

subsection \<open>Passwords\<close>

lemma truncate_72:
  "length (if length b > 72 then take 72 b else b) \<le> 72"
  by simp

lemma truncate_eq:
  fixes b1 b2 :: string
  assumes "72 \<le> length b1" "72 \<le> length b2" "take 72 b1 = take 72 b2"
  shows "(if length b2 > 72 then take 72 b2 else b2) = (if length b1 > 72 then take 72 b1 else b1)"
proof -
  have "(if length b > 72 then take 72 b else b) = take 72 b" if "72 \<le> length b" for b :: string
    using that by (cases "length b = 72") auto
  from this [OF assms(1)] this [OF assms(2)] assms(3) show ?thesis by (simp only:)
qed

text \<open>
  Claim C2. Given a password library that accepts what it hashed (for inputs of at most
  72 bytes), every password verifies against its own hash; and two passwords whose UTF-8
  encodings are both at least 72 bytes long and agree on the first 72 bytes verify
  against each other's hash, since hashing and verification both cut the encoding down
  to its first 72 bytes. The salt is arbitrary.
\<close>

theorem verify_password_of_hash:
  assumes "bcrypt_correct hashpw checkpw"
  shows "verify_password checkpw p (get_password_hash hashpw salt p)
         \<and> (72 \<le> length (encode_utf8 p1) \<and> 72 \<le> length (encode_utf8 p2)
              \<and> take 72 (encode_utf8 p1) = take 72 (encode_utf8 p2)
            \<longrightarrow> verify_password checkpw p2 (get_password_hash hashpw salt p1))"
proof (intro conjI impI)
  have ok: "checkpw (if length b > 72 then take 72 b else b)
              (hashpw (if length b > 72 then take 72 b else b) salt)" for b
    using assms truncate_72 [of b] unfolding bcrypt_correct_def by blast
  show "verify_password checkpw p (get_password_hash hashpw salt p)"
    using ok [of p]
    by (simp add: verify_password_def get_password_hash_def safe_bcrypt_verify_def
        safe_bcrypt_hash_def encode_utf8_def decode_utf8_def Let_def)
  assume h: "72 \<le> length (encode_utf8 p1) \<and> 72 \<le> length (encode_utf8 p2)
              \<and> take 72 (encode_utf8 p1) = take 72 (encode_utf8 p2)"
  then have "(if length p2 > 72 then take 72 p2 else p2) = (if length p1 > 72 then take 72 p1 else p1)"
    using truncate_eq [of p1 p2] by (simp add: encode_utf8_def)
  with ok [of p1]
  show "verify_password checkpw p2 (get_password_hash hashpw salt p1)"
    by (simp add: verify_password_def get_password_hash_def safe_bcrypt_verify_def
        safe_bcrypt_hash_def encode_utf8_def decode_utf8_def Let_def)
qed

lemma demo_bcrypt_correct: "bcrypt_correct demo_hashpw demo_checkpw"
  by (simp add: bcrypt_correct_def demo_hashpw_def demo_checkpw_def)

theorem verify_password_of_hash_witness:
  "bcrypt_correct demo_hashpw demo_checkpw
   \<and> verify_password demo_checkpw ''wonderland'' (get_password_hash demo_hashpw ''salt'' ''wonderland'')
   \<and> 72 \<le> length (encode_utf8 (replicate 72 CHR ''a'' @ ''xyz''))
   \<and> 72 \<le> length (encode_utf8 (replicate 72 CHR ''a'' @ ''w''))
   \<and> take 72 (encode_utf8 (replicate 72 CHR ''a'' @ ''xyz'')) = take 72 (encode_utf8 (replicate 72 CHR ''a'' @ ''w''))
   \<and> verify_password demo_checkpw (replicate 72 CHR ''a'' @ ''w'')
        (get_password_hash demo_hashpw ''salt'' (replicate 72 CHR ''a'' @ ''xyz''))"
  using verify_password_of_hash [OF demo_bcrypt_correct, of "''wonderland''" "''salt''"
          "replicate 72 CHR ''a'' @ ''xyz''" "replicate 72 CHR ''a'' @ ''w''"]
        demo_bcrypt_correct
  by (simp add: encode_utf8_def)

subsection \<open>Tokens\<close>

text \<open>
  What \<open>verify_token\<close> does with each outcome of the decoder: the claims on success, the
  absent value on a \<open>JWTError\<close> or one of its subclasses, and any other exception goes
  on to the caller.
\<close>

lemma verify_token_cases:
  "(dec token key [ALGORITHM] now = Inr c \<longrightarrow> verify_token dec key now token = Inr (Some c))
   \<and> (dec token key [ALGORITHM] now = Inl e \<and> isinstance_JWTError e
        \<longrightarrow> verify_token dec key now token = Inr None)
   \<and> (dec token key [ALGORITHM] now = Inl e \<and> \<not> isinstance_JWTError e
        \<longrightarrow> verify_token dec key now token = Inl e)"
  by (simp add: verify_token_def)

text \<open>
  A token whose signature verifies and whose payload has \<open>exp\<close> set to \<open>null\<close> (and no
  \<open>iat\<close> or \<open>nbf\<close>): the library's \<open>int(claims['exp'])\<close> raises \<open>TypeError\<close>.
\<close>

lemma jose_decode_null_exp:
  assumes "vrf token key algs = Some c" "c ''iat'' = None" "c ''nbf'' = None"
    and "c ''exp'' = Some JNull"
  shows "jose_decode vrf py_int token key algs now = Inl TypeError"
  using assms
  by (simp add: jose_decode_def validate_claims_def validate_iat_def validate_nbf_def
      validate_exp_def)

lemma demo_null_exp:
  "demo_jws_verify null_exp_claims ''demo.token'' ''k'' [ALGORITHM] = Some null_exp_claims
   \<and> jose_decode (demo_jws_verify null_exp_claims) demo_int_of_str ''demo.token'' ''k''
        [ALGORITHM] 400 = Inl TypeError"
proof -
  have v: "demo_jws_verify null_exp_claims ''demo.token'' ''k'' [ALGORITHM] = Some null_exp_claims"
    by (simp add: demo_jws_verify_def)
  from jose_decode_null_exp
         [of "demo_jws_verify null_exp_claims" "''demo.token''" "''k''" "[ALGORITHM]"
             null_exp_claims demo_int_of_str 400] v
  show ?thesis
    by (simp add: null_exp_claims_def)
qed

text \<open>
  Claim C9 says that \<open>verify_token\<close> never raises. On a token signed with the key whose
  payload is \<open>{"sub": "alice", "exp": null}\<close> the decoder raises \<open>TypeError\<close>, which is
  not a \<open>JWTError\<close>; \<open>except JWTError\<close> does not catch it and \<open>verify_token\<close> raises it
  to its caller.
\<close>

theorem verify_token_raises:
  "demo_jws_verify null_exp_claims ''demo.token'' ''k'' [ALGORITHM] = Some null_exp_claims
   \<and> null_exp_claims ''exp'' = Some JNull
   \<and> jose_decode (demo_jws_verify null_exp_claims) demo_int_of_str ''demo.token'' ''k''
        [ALGORITHM] 400 = Inl TypeError
   \<and> \<not> isinstance_JWTError TypeError
   \<and> verify_token (jose_decode (demo_jws_verify null_exp_claims) demo_int_of_str) ''k'' 400
        ''demo.token'' = Inl TypeError"
  using demo_null_exp
  by (simp add: verify_token_def null_exp_claims_def)









subsection \<open>Login\<close>

lemma find_SomeD:
  "find P xs = Some x \<Longrightarrow> x \<in> set xs \<and> P x"
  by (induction xs) (auto split: if_splits)







text \<open>
  What \<open>login_spec\<close> assumes of the decoder holds of the library's claim validation on
  the claims that \<open>login\<close> issues, as soon as the signing layer hands back the claims it
  signed.
\<close>

lemma jose_roundtrip_login:
  assumes "jws_roundtrip sign vrf k a ((login_claims u)(''exp'' \<mapsto> JInt e))"
  shows "jose_roundtrip sign (jose_decode vrf py_int) k a ((login_claims u)(''exp'' \<mapsto> JInt e))"
  using assms
  by (simp add: jose_roundtrip_def jws_roundtrip_def jose_decode_def validate_claims_def
      validate_iat_def validate_nbf_def validate_exp_def validate_aud_def validate_sub_def
      validate_jti_def validate_at_hash_def login_claims_def)

subsection \<open>Registration\<close>

lemma fold_max_ge: "(a::int) \<le> fold max xs a \<and> (\<forall>x\<in>set xs. x \<le> fold max xs a)"
proof (induction xs arbitrary: a)
  case Nil
  then show ?case by simp
next
  case (Cons y ys)
  from Cons [of "max y a"] show ?case by auto
qed

lemma next_id_fresh: "next_id ids \<notin> set ids"
proof
  assume "next_id ids \<in> set ids"
  with fold_max_ge [of 0 ids] have "next_id ids \<le> fold max ids 0" by blast
  then show False by (simp add: next_id_def)
qed

lemma UserResponse_fields:
  "map fst (UserResponse u) = [''username'', ''email'', ''id'', ''role'', ''created_at'']"
  by (simp add: UserResponse_def)

text \<open>
  Claim C5. \<open>POST /user\<close> fails with status 400 and leaves the stored users as they were
  when some stored user has the requested username or the requested email. Otherwise it
  adds exactly one user, with the requested username, email and role, the hash of the
  requested password and an id that no other stored user has, and returns the
  \<open>UserResponse\<close> of that user: the fields \<open>username\<close>, \<open>email\<close>, \<open>id\<close>, \<open>role\<close> and
  \<open>created_at\<close>, with no field \<open>hashed_password\<close> and nothing that depends on the
  hash.
\<close>

theorem create_user_spec:
  "((\<exists>u\<in>set (users db). username u = uc_username req \<or> email u = uc_email req)
      \<longrightarrow> (\<exists>detail. create_user hashpw salt now db req = (db, Inl (HTTPException 400 detail))))
   \<and> (\<not> (\<exists>u\<in>set (users db). username u = uc_username req \<or> email u = uc_email req)
      \<longrightarrow> (\<exists>u. create_user hashpw salt now db req
                   = (db\<lparr>users := users db @ [u]\<rparr>, Inr (UserResponse u))
               \<and> username u = uc_username req \<and> email u = uc_email req
               \<and> role u = uc_role req \<and> user_created_at u = now
               \<and> hashed_password u = get_password_hash hashpw salt (uc_password req)
               \<and> uid u \<notin> uid ` set (users db)
               \<and> map fst (UserResponse u) = [''username'', ''email'', ''id'', ''role'', ''created_at'']
               \<and> ''hashed_password'' \<notin> fst ` set (UserResponse u)
               \<and> (\<forall>h. UserResponse (u\<lparr>hashed_password := h\<rparr>) = UserResponse u)))"
proof (intro conjI impI)
  assume "\<exists>u\<in>set (users db). username u = uc_username req \<or> email u = uc_email req"
  then have "find (\<lambda>u. username u = uc_username req) (users db) \<noteq> None
             \<or> find (\<lambda>u. email u = uc_email req) (users db) \<noteq> None"
    by (auto simp: find_None_iff)
  then show "\<exists>detail. create_user hashpw salt now db req = (db, Inl (HTTPException 400 detail))"
    by (auto simp: create_user_def get_user_by_username_def)
next
  assume new: "\<not> (\<exists>u\<in>set (users db). username u = uc_username req \<or> email u = uc_email req)"
  let ?u = "\<lparr>uid = next_id (map uid (users db)), username = uc_username req,
             email = uc_email req,
             hashed_password = get_password_hash hashpw salt (uc_password req),
             role = uc_role req, user_created_at = now\<rparr>"
  from new have f: "find (\<lambda>u. username u = uc_username req) (users db) = None"
    "find (\<lambda>u. email u = uc_email req) (users db) = None"
    by (auto simp: find_None_iff)
  from new have c: "crud_create_user hashpw salt now db req
                      = (db\<lparr>users := users db @ [?u]\<rparr>, Inr ?u)"
    by (simp add: crud_create_user_def Let_def)
  have 1: "create_user hashpw salt now db req
             = (db\<lparr>users := users db @ [?u]\<rparr>, Inr (UserResponse ?u))"
    using f c by (simp add: create_user_def get_user_by_username_def)
  have 2: "uid ?u \<notin> uid ` set (users db)"
    using next_id_fresh [of "map uid (users db)"] by simp
  have 3: "''hashed_password'' \<notin> fst ` set (UserResponse ?u)"
    by (simp add: UserResponse_def)
  have 4: "\<forall>h. UserResponse (?u\<lparr>hashed_password := h\<rparr>) = UserResponse ?u"
    by (simp add: UserResponse_def)
  show "\<exists>u. create_user hashpw salt now db req
                   = (db\<lparr>users := users db @ [u]\<rparr>, Inr (UserResponse u))
               \<and> username u = uc_username req \<and> email u = uc_email req
               \<and> role u = uc_role req \<and> user_created_at u = now
               \<and> hashed_password u = get_password_hash hashpw salt (uc_password req)
               \<and> uid u \<notin> uid ` set (users db)
               \<and> map fst (UserResponse u) = [''username'', ''email'', ''id'', ''role'', ''created_at'']
               \<and> ''hashed_password'' \<notin> fst ` set (UserResponse u)
               \<and> (\<forall>h. UserResponse (u\<lparr>hashed_password := h\<rparr>) = UserResponse u)"
    apply (rule exI [of _ ?u])
    using 1 2 3 4 UserResponse_fields [of ?u] by simp
qed

lemma demo_create_user:
  "create_user demo_hashpw ''salt'' 400 demo_db
      \<lparr>uc_username = ''dave'', uc_email = ''dave@example.org'', uc_password = ''diver1'',
        uc_role = USER\<rparr>
    = (demo_db\<lparr>users := [alice, bob, carol,
          \<lparr>uid = 4, username = ''dave'', email = ''dave@example.org'',
            hashed_password = ''salt$diver1'', role = USER, user_created_at = 400\<rparr>]\<rparr>,
       Inr [(''username'', JStr ''dave''), (''email'', JStr ''dave@example.org''),
            (''id'', JInt 4), (''role'', JStr ''user''), (''created_at'', JInt 400)])
   \<and> create_user demo_hashpw ''salt'' 400 demo_db
      \<lparr>uc_username = ''alice'', uc_email = ''other@example.org'', uc_password = ''diver1'',
        uc_role = USER\<rparr>
    = (demo_db, Inl (HTTPException 400 ''Username already registered''))
   \<and> create_user demo_hashpw ''salt'' 400 demo_db
      \<lparr>uc_username = ''dave'', uc_email = ''carol@example.org'', uc_password = ''diver1'',
        uc_role = USER\<rparr>
    = (demo_db, Inl (HTTPException 400 ''Email already registered''))"
  by (simp add: create_user_def crud_create_user_def get_user_by_username_def
      get_password_hash_def safe_bcrypt_hash_def encode_utf8_def decode_utf8_def
      demo_hashpw_def next_id_def UserResponse_def Let_def
      demo_db_def alice_def bob_def carol_def)

theorem create_user_spec_witness:
  "(\<exists>u\<in>set (users demo_db). username u = ''alice'' \<or> email u = ''other@example.org'')
   \<and> create_user demo_hashpw ''salt'' 400 demo_db
      \<lparr>uc_username = ''alice'', uc_email = ''other@example.org'', uc_password = ''diver1'',
        uc_role = USER\<rparr>
    = (demo_db, Inl (HTTPException 400 ''Username already registered''))
   \<and> \<not> (\<exists>u\<in>set (users demo_db). username u = ''dave'' \<or> email u = ''dave@example.org'')
   \<and> create_user demo_hashpw ''salt'' 400 demo_db
      \<lparr>uc_username = ''dave'', uc_email = ''dave@example.org'', uc_password = ''diver1'',
        uc_role = USER\<rparr>
    = (demo_db\<lparr>users := [alice, bob, carol,
          \<lparr>uid = 4, username = ''dave'', email = ''dave@example.org'',
            hashed_password = ''salt$diver1'', role = USER, user_created_at = 400\<rparr>]\<rparr>,
       Inr [(''username'', JStr ''dave''), (''email'', JStr ''dave@example.org''),
            (''id'', JInt 4), (''role'', JStr ''user''), (''created_at'', JInt 400)])"
  using create_user_spec [of demo_db "\<lparr>uc_username = ''alice'', uc_email = ''other@example.org'',
            uc_password = ''diver1'', uc_role = USER\<rparr>" demo_hashpw "''salt''" 400]
        create_user_spec [of demo_db "\<lparr>uc_username = ''dave'', uc_email = ''dave@example.org'',
            uc_password = ''diver1'', uc_role = USER\<rparr>" demo_hashpw "''salt''" 400]
        demo_create_user
  by (simp add: demo_db_def alice_def bob_def carol_def)

subsection \<open>Updating a user\<close>

lemma find_replace_first_same:
  "find P xs = Some x \<Longrightarrow> P y \<Longrightarrow> find P (replace_first P y xs) = Some y"
  by (induction xs) (auto split: if_splits)

lemma find_replace_first_other:
  "\<not> Q y \<Longrightarrow> (\<forall>x\<in>set xs. P x \<longrightarrow> \<not> Q x) \<Longrightarrow> find Q (replace_first P y xs) = find Q xs"
  by (induction xs) auto

text \<open>
  Claim C8. For an existing user and an update body that supplies the \<open>email\<close> field
  only, \<open>update_user\<close> leaves \<open>username\<close>, \<open>role\<close>, \<open>hashed_password\<close>, \<open>id\<close> and
  \<open>created_at\<close> of the stored record as they were, leaves every other stored user and
  the advertisements as they were, and on success the stored and returned record has
  the supplied email. The commit fails, with nothing changed, exactly when the supplied
  email is \<open>null\<close> or is the email of another stored user. \<open>PATCH /user/{id}\<close> writes
  what \<open>update_user\<close> writes, or nothing when it refuses the caller.
\<close>

theorem update_user_email_only:
  assumes "get_user_by_id db i = Inr (Some old)"
  shows "\<exists>db' res.
           crud_update_user hashpw salt db i
             \<lparr>uu_username = None, uu_email = Some e, uu_password = None\<rparr> = (db', res)
           \<and> (\<exists>u'. get_user_by_id db' i = Inr (Some u')
                  \<and> username u' = username old \<and> role u' = role old
                  \<and> hashed_password u' = hashed_password old
                  \<and> uid u' = uid old \<and> user_created_at u' = user_created_at old
                  \<and> (res = Inr (Some u') \<and> e = Some (email u')
                      \<or> res = Inl IntegrityError \<and> u' = old \<and> db' = db))
           \<and> (\<forall>j. j \<noteq> i \<longrightarrow> get_user_by_id db' j = get_user_by_id db j)
           \<and> advertisements db' = advertisements db
           \<and> (res = Inl IntegrityError
                \<longleftrightarrow> e = None \<or> (\<exists>u\<in>set (users db). uid u \<noteq> i \<and> Some (email u) = e))
           \<and> fst (update_user hashpw salt db i
                    \<lparr>uu_username = None, uu_email = Some e, uu_password = None\<rparr> cu)
               = (if uid cu \<noteq> i \<and> role cu \<noteq> ADMIN then db else db')"
proof -
  let ?upd = "\<lparr>uu_username = None, uu_email = Some e, uu_password = None\<rparr>"
  from assms have sq: "sqlite_integer i"
    and f: "find (\<lambda>u. uid u = i) (users db) = Some old"
    by (simp_all add: get_user_by_id_def split: if_splits)
  from find_SomeD [OF f] have i: "uid old = i" by simp
  show ?thesis
  proof (cases e)
    case None
    then have r: "crud_update_user hashpw salt db i ?upd = (db, Inl IntegrityError)"
      using assms by (simp add: crud_update_user_def assigned_def Let_def)
    then have "fst (update_user hashpw salt db i ?upd cu) = db"
      by (simp add: update_user_def)
    with r assms None i show ?thesis by simp
  next
    case (Some v)
    show ?thesis
    proof (cases "\<exists>u\<in>set (users db). uid u \<noteq> i \<and> email u = v")
      case True
      then have r: "crud_update_user hashpw salt db i ?upd = (db, Inl IntegrityError)"
        using assms Some i by (simp add: crud_update_user_def assigned_def Let_def)
      then have "fst (update_user hashpw salt db i ?upd cu) = db"
        by (simp add: update_user_def)
      with r assms Some i True show ?thesis by auto
    next
      case False
      let ?new = "old\<lparr>email := v\<rparr>"
      let ?db' = "db\<lparr>users := replace_first (\<lambda>u. uid u = i) ?new (users db)\<rparr>"
      from False have r: "crud_update_user hashpw salt db i ?upd = (?db', Inr (Some ?new))"
        using assms Some i by (simp add: crud_update_user_def assigned_def Let_def)
      have same: "get_user_by_id ?db' i = Inr (Some ?new)"
        using find_replace_first_same [OF f, of ?new] i sq by (simp add: get_user_by_id_def)
      have other: "get_user_by_id ?db' j = get_user_by_id db j" if "j \<noteq> i" for j
        using that i
        by (simp add: get_user_by_id_def find_replace_first_other)
      from r have "fst (update_user hashpw salt db i ?upd cu)
                     = (if uid cu \<noteq> i \<and> role cu \<noteq> ADMIN then db else ?db')"
        by (simp add: update_user_def)
      with r same other Some False show ?thesis by auto
    qed
  qed
qed

lemma demo_update_user:
  "get_user_by_id demo_db 1 = Inr (Some alice)
   \<and> crud_update_user demo_hashpw ''salt'' demo_db 1
       \<lparr>uu_username = None, uu_email = Some (Some ''alice@new.example''), uu_password = None\<rparr>
     = (demo_db\<lparr>users := [alice\<lparr>email := ''alice@new.example''\<rparr>, bob, carol]\<rparr>,
        Inr (Some (alice\<lparr>email := ''alice@new.example''\<rparr>)))
   \<and> crud_update_user demo_hashpw ''salt'' demo_db 1
       \<lparr>uu_username = None, uu_email = Some (Some ''bob@example.org''), uu_password = None\<rparr>
     = (demo_db, Inl IntegrityError)
   \<and> crud_update_user demo_hashpw ''salt'' demo_db 1
       \<lparr>uu_username = None, uu_email = Some None, uu_password = None\<rparr>
     = (demo_db, Inl IntegrityError)"
  by (simp add: crud_update_user_def get_user_by_id_def sqlite_integer_def assigned_def
      Let_def demo_db_def alice_def bob_def carol_def)

theorem update_user_email_only_witness:
  "get_user_by_id demo_db 1 = Inr (Some alice)
   \<and> crud_update_user demo_hashpw ''salt'' demo_db 1
       \<lparr>uu_username = None, uu_email = Some (Some ''alice@new.example''), uu_password = None\<rparr>
     = (demo_db\<lparr>users := [alice\<lparr>email := ''alice@new.example''\<rparr>, bob, carol]\<rparr>,
        Inr (Some (alice\<lparr>email := ''alice@new.example''\<rparr>)))
   \<and> get_user_by_id (demo_db\<lparr>users := [alice\<lparr>email := ''alice@new.example''\<rparr>, bob, carol]\<rparr>) 1
     = Inr (Some \<lparr>uid = 1, username = ''alice'', email = ''alice@new.example'',
                   hashed_password = ''salt$wonderland'', role = USER,
                   user_created_at = 100\<rparr>)
   \<and> get_user_by_id (demo_db\<lparr>users := [alice\<lparr>email := ''alice@new.example''\<rparr>, bob, carol]\<rparr>) 2
     = Inr (Some bob)"
  using update_user_email_only [of demo_db 1 alice demo_hashpw "''salt''"
          "Some ''alice@new.example''" alice]
        demo_update_user
  by (simp add: get_user_by_id_def sqlite_integer_def alice_def bob_def)

subsection \<open>Updating and deleting an advertisement\<close>

text \<open>
  What holds of the two handlers on every input: an id that the store cannot bind
  fails the lookup with \<open>OverflowError\<close>, which nothing catches; a missing advertisement
  gives 404; a caller who is neither the owner nor an admin gives 403; in all three
  cases nothing is written. The owner or an admin deletes with success. The owner or an
  admin updates with success when no field of the body is \<open>null\<close>.
\<close>

lemma advertisement_id_overflow:
  assumes "\<not> sqlite_integer i"
  shows "update_advertisement db i upd cu = (db, Inl (Unhandled OverflowError))"
    and "delete_advertisement db i cu = (db, Inl (Unhandled OverflowError))"
  using assms
  by (simp_all add: update_advertisement_def delete_advertisement_def get_advertisement_def)

lemma advertisement_not_found:
  assumes "get_advertisement db i = Inr None"
  shows "update_advertisement db i upd cu = (db, Inl (HTTPException 404 ''Advertisement not found''))"
    and "delete_advertisement db i cu = (db, Inl (HTTPException 404 ''Advertisement not found''))"
  using assms by (simp_all add: update_advertisement_def delete_advertisement_def)

lemma advertisement_forbidden:
  assumes "get_advertisement db i = Inr (Some a)" "owner_id a \<noteq> uid cu" "role cu \<noteq> ADMIN"
  shows "update_advertisement db i upd cu
           = (db, Inl (HTTPException 403 ''Not enough permissions to update this advertisement''))"
    and "delete_advertisement db i cu
           = (db, Inl (HTTPException 403 ''Not enough permissions to delete this advertisement''))"
  using assms by (simp_all add: update_advertisement_def delete_advertisement_def)

lemma delete_advertisement_allowed:
  assumes "get_advertisement db i = Inr (Some a)" "owner_id a = uid cu \<or> role cu = ADMIN"
  shows "delete_advertisement db i cu
           = (db\<lparr>advertisements := remove_first (\<lambda>a. ad_id a = i) (advertisements db)\<rparr>,
              Inr ''Advertisement deleted successfully'')"
  using assms
  by (auto simp: delete_advertisement_def crud_delete_advertisement_def)

lemma update_advertisement_allowed:
  assumes "get_advertisement db i = Inr (Some a)" "owner_id a = uid cu \<or> role cu = ADMIN"
    and "au_title upd \<noteq> Some None" "au_description upd \<noteq> Some None" "au_price upd \<noteq> Some None"
  shows "\<exists>a'. update_advertisement db i upd cu
                = (db\<lparr>advertisements := replace_first (\<lambda>a. ad_id a = i) a' (advertisements db)\<rparr>,
                   Inr (Some a'))
              \<and> ad_id a' = ad_id a \<and> owner_id a' = owner_id a
              \<and> ad_created_at a' = ad_created_at a
              \<and> title a' = (case au_title upd of Some (Some t) \<Rightarrow> t | _ \<Rightarrow> title a)
              \<and> description a' = (case au_description upd of Some (Some d) \<Rightarrow> d | _ \<Rightarrow> description a)
              \<and> price a' = (case au_price upd of Some (Some p) \<Rightarrow> p | _ \<Rightarrow> price a)"
  using assms
  by (auto simp: update_advertisement_def crud_update_advertisement_def assigned_def Let_def
      split: option.splits)

text \<open>
  A body may set a field to \<open>null\<close>: validation accepts it (the fields of
  \<open>AdvertisementUpdate\<close> are \<open>Optional\<close>), \<open>model_dump(exclude_unset=True)\<close> keeps it, and
  \<open>setattr\<close> writes it into a column declared \<open>nullable=False\<close>. The commit then raises
  \<open>IntegrityError\<close>, which nothing catches.
\<close>

lemma update_advertisement_null:
  assumes "get_advertisement db i = Inr (Some a)" "owner_id a = uid cu \<or> role cu = ADMIN"
    and "au_title upd = Some None \<or> au_description upd = Some None \<or> au_price upd = Some None"
  shows "update_advertisement db i upd cu = (db, Inl (Unhandled IntegrityError))"
  using assms
  by (auto simp: update_advertisement_def crud_update_advertisement_def assigned_def Let_def
      split: option.splits)

text \<open>
  Claim C6 says that the owner's (or an admin's) \<open>PATCH\<close> performs the update and
  succeeds. At the body \<open>{"title": null}\<close>, sent by the owner of advertisement 1, the
  handler fails with an unhandled \<open>IntegrityError\<close> and writes nothing; the same caller's
  update with a title succeeds.
\<close>

theorem update_advertisement_null_title:
  "get_advertisement demo_db 1 = Inr (Some bike)
   \<and> owner_id bike = uid alice
   \<and> update_advertisement demo_db 1
        \<lparr>au_title = Some None, au_description = None, au_price = None\<rparr> alice
     = (demo_db, Inl (Unhandled IntegrityError))
   \<and> update_advertisement demo_db 1
        \<lparr>au_title = Some (Some ''Blue bike''), au_description = None, au_price = None\<rparr> alice
     = (demo_db\<lparr>advertisements := [bike\<lparr>title := ''Blue bike''\<rparr>, sofa]\<rparr>,
        Inr (Some (bike\<lparr>title := ''Blue bike''\<rparr>)))"
  by (simp add: update_advertisement_def crud_update_advertisement_def get_advertisement_def
      sqlite_integer_def assigned_def Let_def demo_db_def bike_def sofa_def alice_def)

subsection \<open>Identity resolution\<close>

text \<open>
  \<open>str.split()\<close> skips leading whitespace, takes the word up to the next whitespace,
  and goes on with the rest. Hence it returns exactly two parts \<open>t1\<close>, \<open>t2\<close> if and
  only if the header consists of the two tokens \<open>t1\<close> and \<open>t2\<close>, separated and
  surrounded by whitespace only.
\<close>

lemma split_from_skip:
  "split_from [] s = split_from [] (dropWhile isspace s)"
  by (induction s) simp_all

lemma split_from_word:
  "split_from w s =
     (if w @ takeWhile (\<lambda>c. \<not> isspace c) s = []
      then split_from [] (dropWhile (\<lambda>c. \<not> isspace c) s)
      else (w @ takeWhile (\<lambda>c. \<not> isspace c) s)
             # split_from [] (dropWhile (\<lambda>c. \<not> isspace c) s))"
proof (induction s arbitrary: w)
  case Nil
  then show ?case by simp
next
  case (Cons c cs)
  show ?case
  proof (cases "isspace c")
    case True
    then show ?thesis by simp
  next
    case False
    with Cons [of "w @ [c]"] show ?thesis by simp
  qed
qed

lemma str_split_unfold:
  "str_split s =
     (let s' = dropWhile isspace s
      in if s' = [] then []
         else takeWhile (\<lambda>c. \<not> isspace c) s'
                # str_split (dropWhile (\<lambda>c. \<not> isspace c) s'))"
proof (cases "dropWhile isspace s")
  case Nil
  then show ?thesis
    using split_from_skip [of s] by (simp add: str_split_def del: dropWhile_eq_Nil_conv)
next
  case (Cons c cs)
  then have "\<not> isspace c"
    by (metis hd_dropWhile list.sel(1) list.distinct(1))
  with Cons have "takeWhile (\<lambda>c. \<not> isspace c) (dropWhile isspace s) \<noteq> []" by simp
  with Cons show ?thesis
    using split_from_skip [of s] split_from_word [of "[]" "dropWhile isspace s"]
    by (simp add: str_split_def Let_def del: dropWhile_eq_Nil_conv)
qed

lemma str_split_Nil_iff: "str_split s = [] \<longleftrightarrow> (\<forall>c\<in>set s. isspace c)"
proof -
  have "str_split s = [] \<longleftrightarrow> dropWhile isspace s = []"
    using str_split_unfold [of s] by (simp add: Let_def del: dropWhile_eq_Nil_conv)
  then show ?thesis by simp
qed

lemma str_split_spaces: "(\<forall>c\<in>set w. isspace c) \<Longrightarrow> str_split (w @ s) = str_split s"
proof -
  assume w: "\<forall>c\<in>set w. isspace c"
  then have "dropWhile isspace (w @ s) = dropWhile isspace s"
    by (simp add: dropWhile_append)
  then show ?thesis
    using split_from_skip [of "w @ s"] split_from_skip [of s] by (simp add: str_split_def)
qed

lemma str_split_token:
  assumes "t \<noteq> []" "\<forall>c\<in>set t. \<not> isspace c" "s = [] \<or> isspace (hd s)"
  shows "str_split (t @ s) = t # str_split s"
proof -
  from assms(1,2) have d: "dropWhile isspace (t @ s) = t @ s"
    by (cases t) simp_all
  from assms(2,3) have tk: "takeWhile (\<lambda>c. \<not> isspace c) (t @ s) = t"
    by (cases s) (simp_all add: takeWhile_append)
  from assms(2,3) have dr: "dropWhile (\<lambda>c. \<not> isspace c) (t @ s) = s"
    by (cases s) (simp_all add: dropWhile_append)
  from assms(1) show ?thesis
    using str_split_unfold [of "t @ s"] by (simp add: d tk dr Let_def)
qed

lemma str_split_Cons:
  assumes "str_split s = t # ts"
  shows "\<exists>w0 r. s = w0 @ t @ r \<and> (\<forall>c\<in>set w0. isspace c) \<and> t \<noteq> []
           \<and> (\<forall>c\<in>set t. \<not> isspace c) \<and> (r = [] \<or> isspace (hd r)) \<and> str_split r = ts"
proof -
  let ?s' = "dropWhile isspace s"
  let ?t = "takeWhile (\<lambda>c. \<not> isspace c) ?s'"
  let ?r = "dropWhile (\<lambda>c. \<not> isspace c) ?s'"
  from assms have ne: "?s' \<noteq> []"
    using str_split_unfold [of s]
    by (auto simp: Let_def simp del: dropWhile_eq_Nil_conv split: if_splits)
  with assms have t: "t = ?t" and ts: "str_split ?r = ts"
    using str_split_unfold [of s]
    by (simp_all add: Let_def del: dropWhile_eq_Nil_conv)
  from ne have "\<not> isspace (hd ?s')" by (rule hd_dropWhile)
  with ne have tne: "?t \<noteq> []" by (cases ?s') simp_all
  have s: "s = takeWhile isspace s @ ?t @ ?r" by simp
  have r: "?r = [] \<or> isspace (hd ?r)"
    using hd_dropWhile [of "\<lambda>c. \<not> isspace c" ?s'] by blast
  have w0: "\<forall>c\<in>set (takeWhile isspace s). isspace c"
    by (auto dest: set_takeWhileD)
  have tns: "\<forall>c\<in>set ?t. \<not> isspace c"
    by (auto dest: set_takeWhileD)
  from s w0 tne tns r ts t show ?thesis by blast
qed

lemma str_split_two_tokens:
  "str_split a = [t1, t2] \<longleftrightarrow> two_tokens a t1 t2"
proof
  assume "str_split a = [t1, t2]"
  from str_split_Cons [OF this] obtain w0 r where 1:
    "a = w0 @ t1 @ r" "\<forall>c\<in>set w0. isspace c" "t1 \<noteq> []" "\<forall>c\<in>set t1. \<not> isspace c"
    "r = [] \<or> isspace (hd r)" "str_split r = [t2]"
    by blast
  from str_split_Cons [OF 1(6)] obtain w1 r' where 2:
    "r = w1 @ t2 @ r'" "\<forall>c\<in>set w1. isspace c" "t2 \<noteq> []" "\<forall>c\<in>set t2. \<not> isspace c"
    "str_split r' = []"
    by blast
  from 2(5) have 3: "\<forall>c\<in>set r'. isspace c" by (simp add: str_split_Nil_iff)
  have "w1 \<noteq> []"
  proof
    assume "w1 = []"
    with 2(1,3) have "r \<noteq> []" "hd r = hd t2" by simp_all
    with 1(5) 2(3,4) show False by (cases t2) auto
  qed
  with 1 2 3 show "two_tokens a t1 t2"
    unfolding two_tokens_def by (intro exI [of _ w0] exI [of _ w1] exI [of _ r']) auto
next
  assume "two_tokens a t1 t2"
  then obtain w0 w1 w2 where a: "a = w0 @ t1 @ w1 @ t2 @ w2"
    and w: "\<forall>c\<in>set w0. isspace c" "\<forall>c\<in>set w1. isspace c" "\<forall>c\<in>set w2. isspace c"
    and ne: "w1 \<noteq> []" "t1 \<noteq> []" "t2 \<noteq> []"
    and t: "\<forall>c\<in>set t1. \<not> isspace c" "\<forall>c\<in>set t2. \<not> isspace c"
    unfolding two_tokens_def by auto
  have "str_split a = str_split (t1 @ w1 @ t2 @ w2)"
    unfolding a using w(1) by (rule str_split_spaces)
  also have "\<dots> = t1 # str_split (w1 @ t2 @ w2)"
    using ne(1,2) t(1) w(2) by (intro str_split_token) (cases w1; simp_all)+
  also have "str_split (w1 @ t2 @ w2) = str_split (t2 @ w2)"
    using w(2) by (rule str_split_spaces)
  also have "\<dots> = t2 # str_split w2"
    using ne(3) t(2) w(3) by (intro str_split_token) (cases w2; simp_all)+
  also have "str_split w2 = []"
    using w(3) by (simp add: str_split_Nil_iff)
  finally show "str_split a = [t1, t2]" by simp
qed

text \<open>
  \<open>parts[0].lower() == "bearer"\<close> holds exactly of the words that spell \<open>bearer\<close> in any
  mix of upper and lower case.
\<close>

lemma lower_char_eq_iff:
  assumes "97 \<le> (of_char l :: nat)" "(of_char l :: nat) \<le> 122"
  shows "lower_char c = l \<longleftrightarrow> c = l \<or> (of_char c :: nat) + 32 = of_char l"
proof -
  let ?n = "of_char c :: nat"
  have lt: "?n < 256" by simp 
  show ?thesis
  proof (cases "(65 \<le> ?n \<and> ?n \<le> 90) \<or> (192 \<le> ?n \<and> ?n \<le> 222 \<and> ?n \<noteq> 215)")
    case True
    then have lc: "lower_char c = char_of (?n + 32)" by (simp add: lower_char_def Let_def)
    have "char_of (?n + 32) = l \<longleftrightarrow> (of_char (char_of (?n + 32) :: char) :: nat) = of_char l"
      by (simp only: of_char_eq_iff)
    also have "(of_char (char_of (?n + 32) :: char) :: nat) = ?n + 32"
    proof -
      from True have "?n + 32 < 256" by arith
      then show ?thesis by (simp add: of_char_of)
    qed
    finally have "lower_char c = l \<longleftrightarrow> ?n + 32 = of_char l" using lc by simp
    moreover have "c \<noteq> l" using True assms by auto
    ultimately show ?thesis by simp
  next
    case False
    then have lc: "lower_char c = c" by (auto simp: lower_char_def Let_def)
    have "?n + 32 \<noteq> of_char l" using False assms by auto
    with lc show ?thesis by simp
  qed
qed

lemma lower_char_bear:
  "lower_char c = CHR ''b'' \<longleftrightarrow> c = CHR ''b'' \<or> c = CHR ''B''"
  "lower_char c = CHR ''e'' \<longleftrightarrow> c = CHR ''e'' \<or> c = CHR ''E''"
  "lower_char c = CHR ''a'' \<longleftrightarrow> c = CHR ''a'' \<or> c = CHR ''A''"
  "lower_char c = CHR ''r'' \<longleftrightarrow> c = CHR ''r'' \<or> c = CHR ''R''"
proof -
  have b: "(of_char c :: nat) + 32 = of_char CHR ''b'' \<longleftrightarrow> (of_char c :: nat) = of_char CHR ''B''"
    by simp
  have e: "(of_char c :: nat) + 32 = of_char CHR ''e'' \<longleftrightarrow> (of_char c :: nat) = of_char CHR ''E''"
    by simp
  have a: "(of_char c :: nat) + 32 = of_char CHR ''a'' \<longleftrightarrow> (of_char c :: nat) = of_char CHR ''A''"
    by simp
  have r: "(of_char c :: nat) + 32 = of_char CHR ''r'' \<longleftrightarrow> (of_char c :: nat) = of_char CHR ''R''"
    by simp
  show "lower_char c = CHR ''b'' \<longleftrightarrow> c = CHR ''b'' \<or> c = CHR ''B''"
    using lower_char_eq_iff [of "CHR ''b''" c] by (simp only: b of_char_eq_iff) simp
  show "lower_char c = CHR ''e'' \<longleftrightarrow> c = CHR ''e'' \<or> c = CHR ''E''"
    using lower_char_eq_iff [of "CHR ''e''" c] by (simp only: e of_char_eq_iff) simp
  show "lower_char c = CHR ''a'' \<longleftrightarrow> c = CHR ''a'' \<or> c = CHR ''A''"
    using lower_char_eq_iff [of "CHR ''a''" c] by (simp only: a of_char_eq_iff) simp
  show "lower_char c = CHR ''r'' \<longleftrightarrow> c = CHR ''r'' \<or> c = CHR ''R''"
    using lower_char_eq_iff [of "CHR ''r''" c] by (simp only: r of_char_eq_iff) simp
qed

lemma str_lower_bearer_iff:
  "str_lower t = ''bearer'' \<longleftrightarrow>
     (\<exists>c1 c2 c3 c4 c5 c6. t = [c1, c2, c3, c4, c5, c6]
        \<and> (c1 = CHR ''b'' \<or> c1 = CHR ''B'') \<and> (c2 = CHR ''e'' \<or> c2 = CHR ''E'')
        \<and> (c3 = CHR ''a'' \<or> c3 = CHR ''A'') \<and> (c4 = CHR ''r'' \<or> c4 = CHR ''R'')
        \<and> (c5 = CHR ''e'' \<or> c5 = CHR ''E'') \<and> (c6 = CHR ''r'' \<or> c6 = CHR ''R''))"
proof
  assume "str_lower t = ''bearer''"
  then obtain c1 c2 c3 c4 c5 c6 where t: "t = [c1, c2, c3, c4, c5, c6]"
    and l: "lower_char c1 = CHR ''b''" "lower_char c2 = CHR ''e''" "lower_char c3 = CHR ''a''"
      "lower_char c4 = CHR ''r''" "lower_char c5 = CHR ''e''" "lower_char c6 = CHR ''r''"
    unfolding str_lower_def map_eq_Cons_conv by blast
  from l show "\<exists>c1 c2 c3 c4 c5 c6. t = [c1, c2, c3, c4, c5, c6]
        \<and> (c1 = CHR ''b'' \<or> c1 = CHR ''B'') \<and> (c2 = CHR ''e'' \<or> c2 = CHR ''E'')
        \<and> (c3 = CHR ''a'' \<or> c3 = CHR ''A'') \<and> (c4 = CHR ''r'' \<or> c4 = CHR ''R'')
        \<and> (c5 = CHR ''e'' \<or> c5 = CHR ''E'') \<and> (c6 = CHR ''r'' \<or> c6 = CHR ''R'')"
    unfolding t lower_char_bear by blast
next
  assume "\<exists>c1 c2 c3 c4 c5 c6. t = [c1, c2, c3, c4, c5, c6]
        \<and> (c1 = CHR ''b'' \<or> c1 = CHR ''B'') \<and> (c2 = CHR ''e'' \<or> c2 = CHR ''E'')
        \<and> (c3 = CHR ''a'' \<or> c3 = CHR ''A'') \<and> (c4 = CHR ''r'' \<or> c4 = CHR ''R'')
        \<and> (c5 = CHR ''e'' \<or> c5 = CHR ''E'') \<and> (c6 = CHR ''r'' \<or> c6 = CHR ''R'')"
  then obtain c1 c2 c3 c4 c5 c6 where t: "t = [c1, c2, c3, c4, c5, c6]"
    and l: "lower_char c1 = CHR ''b''" "lower_char c2 = CHR ''e''" "lower_char c3 = CHR ''a''"
      "lower_char c4 = CHR ''r''" "lower_char c5 = CHR ''e''" "lower_char c6 = CHR ''r''"
    unfolding lower_char_bear [symmetric] by blast
  then show "str_lower t = ''bearer''" by (simp add: str_lower_def)
qed

lemma get_current_user_malformed:
  assumes "\<not> (\<exists>t1 t2. two_tokens a t1 t2 \<and> str_lower t1 = ''bearer'')"
  shows "get_current_user dec key now db (Some a) = Inr None"
proof (cases "length (str_split a) = 2")
  case True
  then obtain t1 t2 where s: "str_split a = [t1, t2]"
    by (cases "str_split a"; cases "tl (str_split a)") auto
  then have "two_tokens a t1 t2" by (simp add: str_split_two_tokens)
  with assms have "str_lower t1 \<noteq> ''bearer''" by blast
  with s show ?thesis by (simp add: get_current_user_def)
next
  case False
  then show ?thesis by (simp add: get_current_user_def)
qed

lemma get_current_user_bearer:
  assumes "two_tokens a t1 t2" "str_lower t1 = ''bearer''"
  shows "get_current_user dec key now db (Some a) =
           (case verify_token dec key now t2 of
              Inl e \<Rightarrow> Inl e
            | Inr None \<Rightarrow> Inr None
            | Inr (Some payload) \<Rightarrow>
                (case payload ''sub'' of
                   None \<Rightarrow> Inr None
                 | Some JNull \<Rightarrow> Inr None
                 | Some (JInt n) \<Rightarrow> Inr None
                 | Some (JStr name) \<Rightarrow> Inr (get_user_by_username db name)))"
proof -
  from assms(1) have "str_split a = [t1, t2]" by (simp add: str_split_two_tokens)
  with assms(2) show ?thesis
    by (simp add: get_current_user_def split: sum.splits option.splits jval.splits)
qed

text \<open>
  All the cases of \<open>get_current_user\<close>. It returns the absent identity, and raises
  nothing, when the header is absent; when the header does not consist of exactly two
  whitespace-separated tokens the first of which is \<open>bearer\<close> in any case; when
  \<open>verify_token\<close> returns the absent value; when the verified claims have no \<open>sub\<close>, or a
  \<open>sub\<close> that is not a string; and when no stored user has the username in \<open>sub\<close>. When
  \<open>verify_token\<close> raises, so does \<open>get_current_user\<close>: the call is outside the \<open>try\<close>.
  Otherwise it returns a stored user with that username, the one that
  \<open>get_user_by_username\<close> finds.
\<close>

lemma get_current_user_cases:
  "get_current_user dec key now db None = Inr None
   \<and> (\<not> (\<exists>t1 t2. two_tokens a t1 t2 \<and> str_lower t1 = ''bearer'')
        \<longrightarrow> get_current_user dec key now db (Some a) = Inr None)
   \<and> (two_tokens a t1 t2 \<and> str_lower t1 = ''bearer'' \<longrightarrow>
        (verify_token dec key now t2 = Inr None
           \<longrightarrow> get_current_user dec key now db (Some a) = Inr None)
      \<and> (\<forall>e. verify_token dec key now t2 = Inl e
           \<longrightarrow> get_current_user dec key now db (Some a) = Inl e)
      \<and> (\<forall>c. verify_token dec key now t2 = Inr (Some c) \<longrightarrow>
            (c ''sub'' = None \<longrightarrow> get_current_user dec key now db (Some a) = Inr None)
          \<and> (c ''sub'' = Some JNull
                 \<longrightarrow> get_current_user dec key now db (Some a) = Inr None)
          \<and> (\<forall>n. c ''sub'' = Some (JInt n)
                 \<longrightarrow> get_current_user dec key now db (Some a) = Inr None)
          \<and> (\<forall>name. c ''sub'' = Some (JStr name) \<longrightarrow>
                ((\<forall>u\<in>set (users db). username u \<noteq> name)
                   \<longrightarrow> get_current_user dec key now db (Some a) = Inr None)
              \<and> ((\<exists>u\<in>set (users db). username u = name)
                   \<longrightarrow> (\<exists>u. get_current_user dec key now db (Some a) = Inr (Some u)
                          \<and> u \<in> set (users db) \<and> username u = name
                          \<and> get_user_by_username db name = Some u)))))"
proof (intro conjI impI allI)
  show "get_current_user dec key now db None = Inr None"
    by (simp add: get_current_user_def)
next
  assume "\<not> (\<exists>t1 t2. two_tokens a t1 t2 \<and> str_lower t1 = ''bearer'')"
  then show "get_current_user dec key now db (Some a) = Inr None"
    by (rule get_current_user_malformed)
next
  assume b: "two_tokens a t1 t2 \<and> str_lower t1 = ''bearer''"
  note g = get_current_user_bearer [of a t1 t2 dec key now db]
  {
    assume "verify_token dec key now t2 = Inr None"
    with b g show "get_current_user dec key now db (Some a) = Inr None" by simp
  }
  {
    fix e
    assume "verify_token dec key now t2 = Inl e"
    with b g show "get_current_user dec key now db (Some a) = Inl e" by simp
  }
  {
    fix c
    assume v: "verify_token dec key now t2 = Inr (Some c)"
    {
      assume "c ''sub'' = None"
      with b g v show "get_current_user dec key now db (Some a) = Inr None" by simp
    }
    {
      assume "c ''sub'' = Some JNull"
      with b g v show "get_current_user dec key now db (Some a) = Inr None" by simp
    }
    {
      fix n
      assume "c ''sub'' = Some (JInt n)"
      with b g v show "get_current_user dec key now db (Some a) = Inr None" by simp
    }
    {
      fix name
      assume s: "c ''sub'' = Some (JStr name)"
      with b g v have r: "get_current_user dec key now db (Some a)
                            = Inr (get_user_by_username db name)"
        by simp
      {
        assume "\<forall>u\<in>set (users db). username u \<noteq> name"
        then have "get_user_by_username db name = None"
          by (simp add: get_user_by_username_def find_None_iff)
        with r show "get_current_user dec key now db (Some a) = Inr None" by simp
      }
      {
        assume "\<exists>u\<in>set (users db). username u = name"
        then obtain u where u: "get_user_by_username db name = Some u"
          by (cases "get_user_by_username db name")
             (auto simp: get_user_by_username_def find_None_iff)
        then have "u \<in> set (users db) \<and> username u = name"
          unfolding get_user_by_username_def by (rule find_SomeD)
        with r u
        show "\<exists>u. get_current_user dec key now db (Some a) = Inr (Some u)
                \<and> u \<in> set (users db) \<and> username u = name
                \<and> get_user_by_username db name = Some u"
          by simp
      }
    }
  }
qed

lemma demo_headers:
  "str_split ''Bearer demo.token'' = [''Bearer'', ''demo.token'']
   \<and> str_split ''  bEARER   demo.token '' = [''bEARER'', ''demo.token'']
   \<and> str_split ''Bearer'' = [''Bearer'']
   \<and> str_split ''Bearer demo.token extra'' = [''Bearer'', ''demo.token'', ''extra'']
   \<and> str_split ''Token demo.token'' = [''Token'', ''demo.token'']
   \<and> str_lower ''Bearer'' = ''bearer'' \<and> str_lower ''bEARER'' = ''bearer''
   \<and> str_lower ''Token'' = ''token''"
  by (simp add: str_split_def isspace_def str_lower_def lower_char_def Let_def char_of_eq_iff)

text \<open>
  Claim C1 says that \<open>get_current_user\<close> returns the absent identity, without raising,
  whenever the bearer token fails verification. On the header \<open>Bearer\<close> followed by a
  token signed with the key whose payload is \<open>{"sub": "alice", "exp": null}\<close>, the decoder
  raises \<open>TypeError\<close>, \<open>verify_token\<close> does not catch it, and \<open>get_current_user\<close>, which
  calls \<open>verify_token\<close> outside its \<open>try\<close>, raises it to the request.
\<close>

theorem get_current_user_raises:
  "two_tokens ''Bearer demo.token'' ''Bearer'' ''demo.token''
   \<and> str_lower ''Bearer'' = ''bearer''
   \<and> jose_decode (demo_jws_verify null_exp_claims) demo_int_of_str ''demo.token'' ''k''
        [ALGORITHM] 400 = Inl TypeError
   \<and> get_current_user (jose_decode (demo_jws_verify null_exp_claims) demo_int_of_str) ''k'' 400
        demo_db (Some ''Bearer demo.token'') = Inl TypeError"
proof -
  have sp: "str_split ''Bearer demo.token'' = [''Bearer'', ''demo.token'']"
    and lo: "str_lower ''Bearer'' = ''bearer''"
    using demo_headers by simp_all
  from sp have tt: "two_tokens ''Bearer demo.token'' ''Bearer'' ''demo.token''"
    by (simp only: str_split_two_tokens)
  have d: "jose_decode (demo_jws_verify null_exp_claims) demo_int_of_str ''demo.token'' ''k''
             [ALGORITHM] 400 = Inl TypeError"
    using demo_null_exp by simp
  then have v: "verify_token (jose_decode (demo_jws_verify null_exp_claims) demo_int_of_str)
                  ''k'' 400 ''demo.token'' = Inl TypeError"
    by (simp add: verify_token_def)
  from sp lo v
  have "get_current_user (jose_decode (demo_jws_verify null_exp_claims) demo_int_of_str) ''k'' 400
          demo_db (Some ''Bearer demo.token'') = Inl TypeError"
    by (simp add: get_current_user_def)
  with tt lo d show ?thesis by simp
qed

theorem get_current_user_raises_witness:
  "length (str_split ''Bearer demo.token'') = 2
   \<and> str_lower (str_split ''Bearer demo.token'' ! 0) = ''bearer''
   \<and> verify_token (jose_decode (demo_jws_verify null_exp_claims) demo_int_of_str) ''k'' 400
        (str_split ''Bearer demo.token'' ! 1) = Inl TypeError
   \<and> get_current_user (jose_decode (demo_jws_verify null_exp_claims) demo_int_of_str) ''k'' 400
        demo_db (Some ''Bearer demo.token'') = Inl TypeError"
  using get_current_user_raises demo_headers demo_null_exp
  by (simp add: verify_token_def)

end
